theory Spec2Isabelle
  imports Complex_Main
begin

section \<open>Data model\<close>

text \<open>
  A raw AFAD record is a flat dictionary from string keys to JSON scalars. Python's
  \<open>None\<close> is \<open>JNull\<close>; a key that is absent from the dictionary is \<open>None\<close> of the map.
\<close>

datatype json = JNull | JStr string | JNum real | JBool bool

type_synonym raw_record = "string \<rightharpoonup> json"

text \<open>
  A DataFrame is modelled row-wise: the list of its column names and the list of its
  rows, each row a map from column name to cell. A null cell (NaN, None, NaT, NA) is
  \<open>None\<close> of the map. Floating-point numbers are modelled by the reals, so rounding and
  overflow of float64 are outside the model. An instant of the time column is the number
  of seconds of Europe/Istanbul wall-clock time since 1970-01-01 00:00, so flooring to
  the day is flooring to a multiple of 86400.

  Row labels are not modelled: every table a dataset can hold has unique labels (a
  RangeIndex at construction and after \<open>reset_index\<close>, a subset of the labels after a
  boolean selection or \<open>.loc\<close>), so a label stands for exactly one row.

  Of the dtypes of the columns the code depends on one distinction only: whether a
  column is a datetime column, which the \<open>.dt\<close> accessor and a comparison with a
  \<open>Timestamp\<close> need. The table records the set of its datetime columns; the cells of
  such a column are instants or nulls, and a column assigned from floats stops being a
  datetime column even when every value is null.
\<close>

datatype cell = Num real | Str string | Time int | Flag bool

type_synonym row = "string \<rightharpoonup> cell"

record table =
  columns :: "string list"
  datetimes :: "string set"
  rows :: "row list"

datatype error = KeyError string | ValueError string | TypeError string | AttributeError string
  | NonExistentTimeError string | AmbiguousTimeError string

datatype outcome = Done | Raised error

text \<open>
  What the code takes from pandas and the clock and the model does not compute:
  \<open>pd.to_numeric(errors="coerce")\<close> on one cell; \<open>pd.to_datetime(errors="coerce")\<close>
  followed by \<open>.dt.tz_localize\<close> or \<open>.dt.tz_convert\<close> to Europe/Istanbul on the time
  column; \<open>astype("string")\<close> on a cell that is not a string; and \<open>pd.Timestamp.now\<close>.
  The conversion of the time column either raises or gives the instant of every cell,
  null for a cell that does not parse: \<open>tz_localize\<close> is called with its defaults and
  raises on a wall-clock time that does not exist or is ambiguous in the zone, and the
  \<open>.dt\<close> accessor raises when the parsed column is not a datetime column.
\<close>

record lib =
  to_numeric :: "json \<Rightarrow> real option"
  to_datetime :: "json list \<Rightarrow> error + (json \<Rightarrow> int option)"
  astype_string :: "cell \<Rightarrow> string"
  now :: int

record dataset =
  raw :: "raw_record list"
  df :: "table option"

section \<open>constants.py\<close>

definition CANONICAL_FIELDS :: "string list" where
  "CANONICAL_FIELDS =
     [''event_id'', ''time'', ''latitude'', ''longitude'', ''depth_km'', ''magnitude'',
      ''mag_type'', ''location'', ''province'', ''district'', ''country'',
      ''neighborhood'', ''rms'', ''is_event_update'', ''last_update_time'']"

section \<open>Normalisation of one record\<close>

text \<open>
  The inner helper \<open>g(*names)\<close> of \<open>_normalize_record\<close>: the value under the first name
  that is a key of the record, \<open>None\<close> when no name is a key.
\<close>

fun g :: "raw_record \<Rightarrow> string list \<Rightarrow> json" where
  "g r [] = JNull"
| "g r (n # names) = (case r n of Some v \<Rightarrow> v | None \<Rightarrow> g r names)"

text \<open>The alias list of each canonical field, as written in \<open>_normalize_record\<close>.\<close>

definition aliases :: "(string \<times> string list) list" where
  "aliases =
     [(''event_id'', [''eventid'', ''eventId'', ''eventID'', ''id'']),
      (''time'', [''time'', ''date'', ''datetime'', ''eventDate'', ''lastOccurrenceTime'']),
      (''latitude'', [''latitude'', ''lat'']),
      (''longitude'', [''longitude'', ''lon'', ''lng'']),
      (''depth_km'', [''depth_km'', ''depth'']),
      (''magnitude'', [''magnitude'', ''mag'']),
      (''mag_type'', [''type'', ''magType'']),
      (''location'', [''location'', ''title'', ''place'']),
      (''province'', [''province'', ''il'']),
      (''district'', [''district'', ''ilce'']),
      (''country'', [''country'']),
      (''neighborhood'', [''neighborhood'', ''mahalle'']),
      (''rms'', [''rms'']),
      (''is_event_update'', [''iseventupdate'', ''isEventUpdate'']),
      (''last_update_time'', [''lastupdatedate'', ''lastUpdate'', ''last_update_time''])]"

text \<open>The output dictionary, in insertion order.\<close>

definition normalize_record :: "raw_record \<Rightarrow> (string \<times> json) list" where
  "normalize_record r = map (\<lambda>(field, names). (field, g r names)) aliases"

section \<open>Building the table\<close>

definition cell_of_json :: "json \<Rightarrow> cell option" where
  "cell_of_json v =
     (case v of JNull \<Rightarrow> None | JStr s \<Rightarrow> Some (Str s) | JNum x \<Rightarrow> Some (Num x)
      | JBool b \<Rightarrow> Some (Flag b))"

definition numeric_columns :: "string list" where
  "numeric_columns = [''latitude'', ''longitude'', ''depth_km'', ''magnitude'', ''rms'']"

text \<open>
  The value of a normalised record under a column; a column the record lacks is null
  (\<open>pd.DataFrame(rows)\<close> fills it with NaN).
\<close>

definition field_of :: "(string \<times> json) list \<Rightarrow> string \<Rightarrow> json" where
  "field_of nr c = (case map_of nr c of Some v \<Rightarrow> v | None \<Rightarrow> JNull)"

text \<open>
  One row of the frame after the coercions of \<open>to_dataframe\<close>: the numeric columns go
  through \<open>to_numeric\<close>, the time column through \<open>to_datetime\<close>, every other column
  keeps its value.
\<close>

definition build_row :: "lib \<Rightarrow> string list \<Rightarrow> (json \<Rightarrow> int option) \<Rightarrow> (string \<times> json) list
    \<Rightarrow> row" where
  "build_row L cols parse_time nr = (\<lambda>c.
     if c \<notin> set cols then None
     else if c \<in> set numeric_columns then map_option Num (to_numeric L (field_of nr c))
     else if c = ''time'' then map_option Time (parse_time (field_of nr c))
     else cell_of_json (field_of nr c))"

text \<open>
  The body of \<open>to_dataframe\<close> after the memo check. \<open>pd.DataFrame(rows)\<close> has the keys of
  the dictionaries as columns, in first-seen order; the canonical columns that are
  missing are appended; the columns are then ordered canonical first. The conversion of
  the time column may raise; otherwise the time column is the one datetime column.
\<close>

definition build :: "lib \<Rightarrow> raw_record list \<Rightarrow> error + table" where
  "build L recs =
     (let nrs = map normalize_record recs;
          df_columns = remdups (concat (map (map fst) nrs));
          with_canonical = df_columns @ filter (\<lambda>c. c \<notin> set df_columns) CANONICAL_FIELDS;
          other_cols = filter (\<lambda>c. c \<notin> set CANONICAL_FIELDS) with_canonical;
          cols = CANONICAL_FIELDS @ other_cols;
          time_col = map (\<lambda>nr. field_of nr ''time'') nrs
      in case to_datetime L time_col of
           Inl e \<Rightarrow> Inl e
         | Inr parse_time \<Rightarrow>
             Inr \<lparr>columns = cols, datetimes = {''time''},
                  rows = map (build_row L cols parse_time) nrs\<rparr>)"

text \<open>The constructor keeps the records and builds nothing.\<close>

definition from_records :: "raw_record list \<Rightarrow> dataset" where
  "from_records recs = \<lparr>raw = recs, df = None\<rparr>"

text \<open>
  \<open>to_dataframe\<close>: the memoised table if there is one, else the table is built and stored.
  When the build raises, the exception leaves \<open>to_dataframe\<close> before \<open>self._df = df\<close> and
  nothing is stored.
\<close>

definition to_dataframe :: "lib \<Rightarrow> dataset \<Rightarrow> (error + table) \<times> dataset" where
  "to_dataframe L ds =
     (case df ds of
        Some t \<Rightarrow> (Inr t, ds)
      | None \<Rightarrow> (case build L (raw ds) of
                  Inl e \<Rightarrow> (Inl e, ds)
                | Inr t \<Rightarrow> (Inr t, ds\<lparr>df := Some t\<rparr>)))"

section \<open>Filters\<close>

text \<open>Typed reads of a cell. A comparison with a null cell is false.\<close>

definition num_of :: "cell option \<Rightarrow> real option" where
  "num_of c = (case c of Some (Num x) \<Rightarrow> Some x | _ \<Rightarrow> None)"

definition time_of :: "cell option \<Rightarrow> int option" where
  "time_of c = (case c of Some (Time t) \<Rightarrow> Some t | _ \<Rightarrow> None)"

definition ge_num :: "real option \<Rightarrow> real \<Rightarrow> bool" where
  "ge_num x b = (case x of Some v \<Rightarrow> b \<le> v | None \<Rightarrow> False)"

definition le_num :: "real option \<Rightarrow> real \<Rightarrow> bool" where
  "le_num x b = (case x of Some v \<Rightarrow> v \<le> b | None \<Rightarrow> False)"

definition ge_time :: "int option \<Rightarrow> int \<Rightarrow> bool" where
  "ge_time x b = (case x of Some v \<Rightarrow> b \<le> v | None \<Rightarrow> False)"

definition le_time :: "int option \<Rightarrow> int \<Rightarrow> bool" where
  "le_time x b = (case x of Some v \<Rightarrow> v \<le> b | None \<Rightarrow> False)"

text \<open>\<open>df[mask]\<close>: the rows where the mask holds, in their order, with the same columns.\<close>

definition select :: "(row \<Rightarrow> bool) \<Rightarrow> table \<Rightarrow> table" where
  "select p t = t\<lparr>rows := filter p (rows t)\<rparr>"

text \<open>
  The \<open>.dt\<close> accessor and a comparison with a \<open>Timestamp\<close> need the time column to be a
  datetime column; this is a matter of its dtype, not of its values.
\<close>

definition is_datetime :: "table \<Rightarrow> bool" where
  "is_datetime t = (''time'' \<in> datetimes t)"










section \<open>Energy\<close>

text \<open>\<open>np.where(m.notna(), np.power(10.0, a + b * m), np.nan)\<close> on one row.\<close>

definition energy :: "real \<Rightarrow> real \<Rightarrow> real option \<Rightarrow> cell option" where
  "energy a b m = (case m of Some x \<Rightarrow> Some (Num (10 powr (a + b * x))) | None \<Rightarrow> None)"

text \<open>
  \<open>df[c] = values\<close>: an existing column is overwritten in place, a new one is appended.
  The column takes the dtype of the values: \<open>dt\<close> says whether they are datetimes.
\<close>

definition add_column :: "string \<Rightarrow> string list \<Rightarrow> string list" where
  "add_column c cols = (if c \<in> set cols then cols else cols @ [c])"

definition set_column :: "string \<Rightarrow> bool \<Rightarrow> (row \<Rightarrow> cell option) \<Rightarrow> table \<Rightarrow> table" where
  "set_column c dt f t =
     \<lparr>columns = add_column c (columns t),
      datetimes = (if dt then insert c (datetimes t) else datetimes t - {c}),
      rows = map (\<lambda>r. r(c := f r)) (rows t)\<rparr>"

definition convert_energy :: "lib \<Rightarrow> real \<Rightarrow> real \<Rightarrow> string \<Rightarrow> dataset \<Rightarrow> outcome \<times> dataset" where
  "convert_energy L a b out_col ds =
     (case to_dataframe L ds of
        (Inl e, ds1) \<Rightarrow> (Raised e, ds1)
      | (Inr t, ds1) \<Rightarrow>
      if ''magnitude'' \<notin> set (columns t) then (Raised (KeyError ''magnitude''), ds1)
      else (Done, ds1\<lparr>df := Some (set_column out_col False
                (\<lambda>r. energy a b (num_of (r ''magnitude''))) t)\<rparr>))"

section \<open>Daily aggregation\<close>

text \<open>\<open>.dt.floor("D")\<close> and \<open>pd.Timestamp(x, tz=DEFAULT_TZ).floor("D")\<close>.\<close>

definition floor_day :: "int \<Rightarrow> int" where
  "floor_day t = (t div 86400) * 86400"

text \<open>\<open>df.assign(__day=day)\<close>: the day key of a row, null when its time is null.\<close>

definition assign_day :: "table \<Rightarrow> table" where
  "assign_day t =
     set_column ''__day'' True
       (\<lambda>r. map_option (\<lambda>x. Time (floor_day x)) (time_of (r ''time''))) t"

definition day_key :: "row \<Rightarrow> int option" where
  "day_key r = time_of (r ''__day'')"

text \<open>The optional date window on the day key.\<close>

definition window :: "int option \<Rightarrow> int option \<Rightarrow> table \<Rightarrow> table" where
  "window start end t =
     (let t1 = (case start of None \<Rightarrow> t
                | Some s \<Rightarrow> select (\<lambda>r. ge_time (day_key r) (floor_day s)) t)
      in (case end of None \<Rightarrow> t1
          | Some e \<Rightarrow> select (\<lambda>r. le_time (day_key r) (floor_day e)) t1))"

text \<open>
  \<open>groupby("__day")\<close>: the groups are the distinct non-null keys in ascending order
  (rows with a null key belong to no group); the rows of a group keep their order.
\<close>

definition group_keys :: "row list \<Rightarrow> int list" where
  "group_keys rs = sort (remdups (List.map_filter day_key rs))"

definition group_rows :: "row list \<Rightarrow> int \<Rightarrow> row list" where
  "group_rows rs d = filter (\<lambda>r. day_key r = Some d) rs"

definition column_values :: "string \<Rightarrow> row list \<Rightarrow> real list" where
  "column_values c rs = List.map_filter (\<lambda>r. num_of (r c)) rs"

text \<open>
  \<open>idxmax\<close> of the magnitude on one group: nulls are skipped and the first row that
  attains the maximum is taken; a group with no magnitude at all gives NaN, no row.
\<close>

definition idxmax :: "row list \<Rightarrow> row option" where
  "idxmax grp =
     (case column_values ''magnitude'' grp of
        [] \<Rightarrow> None
      | m # ms \<Rightarrow> find (\<lambda>r. num_of (r ''magnitude'') = Some (Max (set (m # ms)))) grp)"

text \<open>\<open>count\<close> of a column counts its non-null cells, \<open>size\<close> counts rows.\<close>

definition count_col :: "string \<Rightarrow> row list \<Rightarrow> nat" where
  "count_col c grp = length (filter (\<lambda>r. r c \<noteq> None) grp)"

definition transform_count :: "string \<Rightarrow> row list \<Rightarrow> row \<Rightarrow> cell option" where
  "transform_count c rs r =
     (case day_key r of None \<Rightarrow> None
      | Some d \<Rightarrow> Some (Num (real (count_col c (group_rows rs d)))))"

definition group_size :: "row list \<Rightarrow> row \<Rightarrow> cell option" where
  "group_size rs r =
     (case day_key r of None \<Rightarrow> None
      | Some d \<Rightarrow> if d \<in> set (group_keys rs) then Some (Num (real (length (group_rows rs d))))
                  else None)"

text \<open>
  \<open>df.loc[idx, :]\<close> for the labels \<open>idx\<close> of the groups in key order. A NaN among the
  labels is not a label of the frame and \<open>.loc\<close> raises \<open>KeyError\<close> (pandas 3 raises
  \<open>ValueError\<close> in \<open>idxmax\<close> already).
\<close>

definition loc_idxmax :: "row list \<Rightarrow> error + row list" where
  "loc_idxmax rs =
     (case those (map (\<lambda>d. idxmax (group_rows rs d)) (group_keys rs)) of
        None \<Rightarrow> Inl (KeyError ''[nan] not in index'')
      | Some sel \<Rightarrow> Inr sel)"

text \<open>
  The common tail of the two arg-max branches: the count column is attached, the time
  becomes the day key, the key column is dropped.
\<close>

definition finish_row :: "(row \<Rightarrow> cell option) \<Rightarrow> row \<Rightarrow> row" where
  "finish_row cnt r = (r(''event_count'' := cnt r, ''time'' := r ''__day'', ''__day'' := None))"

definition finish_columns :: "string list \<Rightarrow> string list" where
  "finish_columns cols = removeAll ''__day'' (add_column ''event_count'' cols)"

definition finish_datetimes :: "string set \<Rightarrow> string set" where
  "finish_datetimes dts = insert ''time'' (dts - {''event_count'', ''__day''})"

definition daily_max_mag :: "table \<Rightarrow> error + table" where
  "daily_max_mag w =
     (if ''magnitude'' \<notin> set (columns w) then Inl (KeyError ''magnitude'')
      else case loc_idxmax (rows w) of
        Inl e \<Rightarrow> Inl e
      | Inr sel \<Rightarrow>
          if ''event_id'' \<notin> set (columns w) then Inl (KeyError ''event_id'')
          else Inr \<lparr>columns = finish_columns (columns w),
                    datetimes = finish_datetimes (datetimes w),
                    rows = map (finish_row (transform_count ''event_id'' (rows w))) sel\<rparr>)"

definition daily_mag_threshold :: "real option \<Rightarrow> table \<Rightarrow> error + table" where
  "daily_mag_threshold threshold w =
     (case threshold of
        None \<Rightarrow> Inl (ValueError ''threshold must be provided for daily_mag_threshold'')
      | Some th \<Rightarrow>
          if ''magnitude'' \<notin> set (columns w) then Inl (KeyError ''magnitude'')
          else
            let sub = select (\<lambda>r. ge_num (num_of (r ''magnitude'')) th) w in
            if rows sub = [] then Inr sub
            else (case loc_idxmax (rows sub) of
              Inl e \<Rightarrow> Inl e
            | Inr sel \<Rightarrow>
                if ''event_id'' \<notin> set (columns w) then Inl (KeyError ''event_id'')
                else Inr \<lparr>columns = finish_columns (columns sub),
                          datetimes = finish_datetimes (datetimes sub),
                          rows = map (finish_row (group_size (rows w))) sel\<rparr>))"

text \<open>\<open>_ensure_energy\<close>: the energy column is computed with the default constants when absent.\<close>

definition ensure_energy :: "string \<Rightarrow> table \<Rightarrow> error + table" where
  "ensure_energy energy_col w =
     (if energy_col \<in> set (columns w) then Inr w
      else if ''magnitude'' \<notin> set (columns w) then Inl (KeyError ''magnitude'')
      else Inr (set_column energy_col False
                  (\<lambda>r. energy 1.44 5.24 (num_of (r ''magnitude''))) w))"

text \<open>
  The group reductions: \<open>sum\<close> skips nulls and is 0 on a group without values, \<open>max\<close>
  skips nulls and is null on a group without values.
\<close>

definition agg_sum :: "real list \<Rightarrow> cell option" where
  "agg_sum xs = Some (Num (sum_list xs))"

definition agg_max :: "real list \<Rightarrow> cell option" where
  "agg_max xs = (case xs of [] \<Rightarrow> None | y # ys \<Rightarrow> Some (Num (Max (set (y # ys)))))"

definition energy_row :: "string \<Rightarrow> string \<Rightarrow> row list \<Rightarrow> int \<Rightarrow> row" where
  "energy_row mode energy_col rs d =
     (let grp = group_rows rs d in
      Map.empty
        (''time'' := Some (Time d),
         ''energy_J'' := (if mode = ''daily_energy_sum'' then agg_sum (column_values energy_col grp)
                          else agg_max (column_values energy_col grp)),
         ''event_count'' := Some (Num (real (count_col ''event_id'' grp))),
         ''magnitude'' := agg_max (column_values ''magnitude'' grp)))"

definition daily_energy :: "string \<Rightarrow> string \<Rightarrow> table \<Rightarrow> error + table" where
  "daily_energy mode energy_col w =
     (case ensure_energy energy_col w of
        Inl e \<Rightarrow> Inl e
      | Inr w1 \<Rightarrow>
          if ''event_id'' \<notin> set (columns w1) then Inl (KeyError ''event_id'')
          else if ''magnitude'' \<notin> set (columns w1) then Inl (KeyError ''magnitude'')
          else Inr \<lparr>columns = [''time'', ''energy_J'', ''event_count'', ''magnitude''],
                    datetimes = {''time''},
                    rows = map (energy_row mode energy_col (rows w1)) (group_keys (rows w1))\<rparr>)"

text \<open>The branch on the mode, on the windowed frame.\<close>

definition reduce :: "string \<Rightarrow> real option \<Rightarrow> string \<Rightarrow> table \<Rightarrow> error + table" where
  "reduce mode threshold energy_col w =
     (if mode = ''daily_max_mag'' then daily_max_mag w
      else if mode = ''daily_mag_threshold'' then daily_mag_threshold threshold w
      else if mode = ''daily_energy_sum'' \<or> mode = ''daily_energy_max''
        then daily_energy mode energy_col w
      else Inl (ValueError ''Unknown mode''))"

subsection \<open>Gap filling\<close>

text \<open>
  The first and last day of the range; \<open>None\<close> is NaT, the minimum or maximum of a key
  column that holds nulls only.
\<close>

definition start_day :: "lib \<Rightarrow> int option \<Rightarrow> row list \<Rightarrow> int option" where
  "start_day L start rs =
     (case start of
        Some s \<Rightarrow> Some (floor_day s)
      | None \<Rightarrow>
          if rs \<noteq> [] then (case group_keys rs of [] \<Rightarrow> None
                            | k # ks \<Rightarrow> Some (floor_day (Min (set (k # ks)))))
          else Some (floor_day (now L)))"

definition end_day :: "lib \<Rightarrow> int option \<Rightarrow> int option \<Rightarrow> row list \<Rightarrow> int option" where
  "end_day L start end rs =
     (case end of
        Some e \<Rightarrow> Some (floor_day e)
      | None \<Rightarrow>
          if rs \<noteq> [] then (case group_keys rs of [] \<Rightarrow> None
                            | k # ks \<Rightarrow> Some (floor_day (Max (set (k # ks)))))
          else map_option floor_day (start_day L start rs))"

text \<open>\<open>pd.date_range(start, end, freq="D")\<close>: every day from the first to the last, both included.\<close>

definition date_range :: "int \<Rightarrow> int \<Rightarrow> int list" where
  "date_range sd ed =
     (if sd \<le> ed then map (\<lambda>k. sd + int k * 86400) [0 ..< nat ((ed - sd) div 86400) + 1]
      else [])"

text \<open>
  \<open>set_index("time").reindex(full_idx).rename_axis("time").reset_index()\<close>: for each day
  of the range the row of the result with that time, or a row of nulls; the time column
  comes first.
\<close>

definition reindex_row :: "row list \<Rightarrow> int \<Rightarrow> row" where
  "reindex_row rs d =
     (case find (\<lambda>r. r ''time'' = Some (Time d)) rs of
        Some r \<Rightarrow> r
      | None \<Rightarrow> Map.empty(''time'' \<mapsto> Time d))"

text \<open>The defaults of an empty day: \<open>fillna(0.0)\<close> on \<open>energy_J\<close> if present, \<open>fillna(0)\<close> on the count.\<close>

definition fillna :: "string \<Rightarrow> real \<Rightarrow> row \<Rightarrow> row" where
  "fillna c v r = (case r c of None \<Rightarrow> r(c \<mapsto> Num v) | Some _ \<Rightarrow> r)"

definition fill_defaults :: "string list \<Rightarrow> row \<Rightarrow> row" where
  "fill_defaults cols r =
     fillna ''event_count'' 0 (if ''energy_J'' \<in> set cols then fillna ''energy_J'' 0 r else r)"

definition fill_days :: "lib \<Rightarrow> int option \<Rightarrow> int option \<Rightarrow> row list \<Rightarrow> table \<Rightarrow> error + table" where
  "fill_days L start end rs result =
     (case (start_day L start rs, end_day L start end rs) of
        (Some sd, Some ed) \<Rightarrow>
          let cols = ''time'' # removeAll ''time'' (columns result) in
          Inr \<lparr>columns = add_column ''event_count'' cols,
               datetimes = insert ''time'' (datetimes result - {''event_count''}),
               rows = map (\<lambda>d. fill_defaults cols (reindex_row (rows result) d)) (date_range sd ed)\<rparr>
      | _ \<Rightarrow> Inl (ValueError ''Neither start nor end can be NaT''))"

subsection \<open>\<open>aggregate_daily\<close>\<close>

definition aggregate_daily :: "lib \<Rightarrow> string \<Rightarrow> real option \<Rightarrow> string \<Rightarrow> bool \<Rightarrow> int option
    \<Rightarrow> int option \<Rightarrow> dataset \<Rightarrow> outcome \<times> dataset" where
  "aggregate_daily L mode threshold energy_col fill_empty_days start end ds =
     (if mode = ''all_events'' then (Done, ds)
      else
        (case to_dataframe L ds of
           (Inl e, ds1) \<Rightarrow> (Raised e, ds1)
         | (Inr t, ds1) \<Rightarrow>
        if ''time'' \<notin> set (columns t) then (Raised (KeyError ''time''), ds1)
        else if \<not> is_datetime t
          then (Raised (AttributeError ''Can only use .dt accessor with datetimelike values''), ds1)
        else
          let w = window start end (assign_day t) in
          (case reduce mode threshold energy_col w of
            Inl e \<Rightarrow> (Raised e, ds1)
          | Inr result \<Rightarrow>
              if fill_empty_days then
                (case fill_days L start end (rows w) result of
                   Inl e \<Rightarrow> (Raised e, ds1)
                 | Inr filled \<Rightarrow> (Done, ds1\<lparr>df := Some filled\<rparr>))
              else (Done, ds1\<lparr>df := Some result\<rparr>))))"

section \<open>Vocabulary of the specification\<close>


text \<open>
  The invariant of the data model: every canonical field is a column, and the time
  column is a datetime column.
\<close>

definition canonical :: "table \<Rightarrow> bool" where
  "canonical t = (set CANONICAL_FIELDS \<subseteq> set (columns t) \<and> is_datetime t)"

text \<open>
  What the four filters need of a table: the columns they test, and a time column that
  can be compared with a \<open>Timestamp\<close>.
\<close>

definition filterable :: "table \<Rightarrow> bool" where
  "filterable t =
     (set [''time'', ''magnitude'', ''depth_km'', ''mag_type''] \<subseteq> set (columns t)
      \<and> is_datetime t)"

text \<open>
  What the arg-max and energy reductions need of a table: a datetime time column to
  take the day from, and the magnitude and event id columns.
\<close>

definition aggregable :: "table \<Rightarrow> bool" where
  "aggregable t =
     (set [''time'', ''magnitude'', ''event_id''] \<subseteq> set (columns t) \<and> is_datetime t)"

text \<open>
  The current table of a dataset: what \<open>to_dataframe\<close> returns. Where \<open>to_dataframe\<close>
  raises there is no table; the table without columns and rows stands for that.
\<close>

definition current :: "lib \<Rightarrow> dataset \<Rightarrow> table" where
  "current L ds =
     (case fst (to_dataframe L ds) of
        Inr t \<Rightarrow> t
      | Inl e \<Rightarrow> \<lparr>columns = [], datetimes = {}, rows = []\<rparr>)"


section \<open>Example inputs\<close>

text \<open>
  The three records of the specification's scenarios, with a parser that knows their
  three time strings: 2025-01-01 is day 20089 since 1970-01-01, so its midnight is
  1735689600.
\<close>

definition scenario_lib :: lib where
  "scenario_lib =
     \<lparr>to_numeric = (\<lambda>j. case j of JNum x \<Rightarrow> Some x | _ \<Rightarrow> None),
      to_datetime = (\<lambda>col. Inr (map_of
         [(JStr ''2025-01-01T10:00:00'', 1735725600),
          (JStr ''2025-01-01T20:00:00'', 1735761600),
          (JStr ''2025-01-03T05:00:00'', 1735880400)])),
      astype_string = (\<lambda>c. []),
      now = 1735689600\<rparr>"

definition scenario_records :: "raw_record list" where
  "scenario_records =
     [[''mag'' \<mapsto> JNum 5, ''time'' \<mapsto> JStr ''2025-01-01T10:00:00''],
      [''mag'' \<mapsto> JNum 6, ''time'' \<mapsto> JStr ''2025-01-01T20:00:00''],
      [''mag'' \<mapsto> JNum 3, ''time'' \<mapsto> JStr ''2025-01-03T05:00:00'']]"

text \<open>A table with event ids and depths, and one null magnitude.\<close>

definition example_table :: table where
  "example_table =
     \<lparr>columns = CANONICAL_FIELDS,
      datetimes = {''time''},
      rows = [[''event_id'' \<mapsto> Str ''a'', ''time'' \<mapsto> Time 1735725600, ''magnitude'' \<mapsto> Num 5,
               ''depth_km'' \<mapsto> Num 10],
              [''event_id'' \<mapsto> Str ''b'', ''time'' \<mapsto> Time 1735761600, ''magnitude'' \<mapsto> Num 6,
               ''depth_km'' \<mapsto> Num 80],
              [''event_id'' \<mapsto> Str ''c'', ''time'' \<mapsto> Time 1735880400, ''depth_km'' \<mapsto> Num 7]]\<rparr>"

definition example_dataset :: dataset where
  "example_dataset = \<lparr>raw = [], df = Some example_table\<rparr>"

text \<open>The table that \<open>to_dataframe\<close> builds from the scenario's records.\<close>

definition scenario_table :: table where
  "scenario_table =
     \<lparr>columns = CANONICAL_FIELDS,
      datetimes = {''time''},
      rows = [[''time'' \<mapsto> Time 1735725600, ''magnitude'' \<mapsto> Num 5],
              [''time'' \<mapsto> Time 1735761600, ''magnitude'' \<mapsto> Num 6],
              [''time'' \<mapsto> Time 1735880400, ''magnitude'' \<mapsto> Num 3]]\<rparr>"



text \<open>
  A record whose wall-clock time does not exist in Europe/Istanbul (the clocks went from
  03:00 to 04:00 on 2016-03-27), with a conversion of the time column that raises on it
  as \<open>tz_localize\<close> does.
\<close>

definition nonexistent_records :: "raw_record list" where
  "nonexistent_records = [[''mag'' \<mapsto> JNum 4, ''time'' \<mapsto> JStr ''2016-03-27T03:30:00'']]"

definition nonexistent_lib :: lib where
  "nonexistent_lib =
     \<lparr>to_numeric = (\<lambda>j. case j of JNum x \<Rightarrow> Some x | _ \<Rightarrow> None),
      to_datetime = (\<lambda>col.
         if JStr ''2016-03-27T03:30:00'' \<in> set col
         then Inl (NonExistentTimeError ''2016-03-27 03:30:00'')
         else Inr (\<lambda>j. None)),
      astype_string = (\<lambda>c. []),
      now = 1735689600\<rparr>"

section \<open>Normalisation is total and first-match-wins\<close>

lemma g_absent: "(\<forall>n\<in>set names. r n = None) \<Longrightarrow> g r names = JNull"
  by (induction names) auto

lemma g_first_match:
  "(\<forall>m\<in>set pre. r m = None) \<Longrightarrow> r n = Some v \<Longrightarrow> g r (pre @ n # post) = v"
  by (induction pre) auto

lemma normalize_record_keys: "map fst (normalize_record r) = CANONICAL_FIELDS"
  by (simp add: normalize_record_def aliases_def CANONICAL_FIELDS_def)

lemma map_of_map_snd:
  "map_of (map (\<lambda>(k, v). (k, h v)) xs) k = map_option h (map_of xs k)"
  by (induction xs) auto

lemma map_of_normalize_record:
  "(field, names) \<in> set aliases \<Longrightarrow> map_of (normalize_record r) field = Some (g r names)"
proof -
  assume a: "(field, names) \<in> set aliases"
  have d: "distinct (map fst aliases)" by (simp add: aliases_def)
  have "map_of aliases field = Some names" using a d by simp
  then show ?thesis
    unfolding normalize_record_def by (simp add: map_of_map_snd)
qed

text \<open>
  C9. For every record, also one with no recognised key, \<open>_normalize_record\<close> returns a
  dictionary whose keys are exactly the canonical fields, in their declared order. The
  value of a field is \<open>g\<close> of its alias list: null when no alias is a key of the record,
  and otherwise the value under the first alias that is a key.
\<close>

theorem normalize_record_total:
  "map fst (normalize_record r) = CANONICAL_FIELDS
   \<and> (\<forall>(field, names) \<in> set aliases. map_of (normalize_record r) field = Some (g r names))
   \<and> (\<forall>names. (\<forall>n\<in>set names. r n = None) \<longrightarrow> g r names = JNull)
   \<and> (\<forall>pre n post v. (\<forall>m\<in>set pre. r m = None) \<and> r n = Some v \<longrightarrow> g r (pre @ n # post) = v)"
  using normalize_record_keys map_of_normalize_record g_absent g_first_match
  by (auto simp del: g.simps)

theorem normalize_record_total_witness:
  "map fst (normalize_record Map.empty) = CANONICAL_FIELDS
   \<and> map_of (normalize_record Map.empty) ''magnitude'' = Some JNull
   \<and> map_of (normalize_record [''date'' \<mapsto> JStr ''d'', ''eventDate'' \<mapsto> JStr ''e'']) ''time''
       = Some (JStr ''d'')"
proof -
  let ?r = "[''date'' \<mapsto> JStr ''d'', ''eventDate'' \<mapsto> JStr ''e'']"
  have m: "(''magnitude'', [''magnitude'', ''mag'']) \<in> set aliases"
    and t: "(''time'', [''time'', ''date'', ''datetime'', ''eventDate'', ''lastOccurrenceTime''])
        \<in> set aliases"
    by (simp_all add: aliases_def)
  note e = normalize_record_total [of Map.empty]
  note d = normalize_record_total [of ?r]
  from e have e1: "map fst (normalize_record Map.empty) = CANONICAL_FIELDS" by blast
  from e m have e2: "map_of (normalize_record Map.empty) ''magnitude''
      = Some (g Map.empty [''magnitude'', ''mag''])"
    by blast
  from e have e3: "g Map.empty [''magnitude'', ''mag''] = JNull" by simp
  from d t have d1: "map_of (normalize_record ?r) ''time''
      = Some (g ?r [''time'', ''date'', ''datetime'', ''eventDate'', ''lastOccurrenceTime''])"
    by blast
  from d have "(\<forall>m\<in>set [''time'']. ?r m = None) \<and> ?r ''date'' = Some (JStr ''d'')
      \<longrightarrow> g ?r ([''time''] @ ''date'' # [''datetime'', ''eventDate'', ''lastOccurrenceTime''])
          = JStr ''d''"
    by blast
  then have d2: "g ?r [''time'', ''date'', ''datetime'', ''eventDate'', ''lastOccurrenceTime'']
      = JStr ''d''"
    by simp
  show ?thesis using e1 e2 e3 d1 d2 by simp
qed

section \<open>The table is built once\<close>

lemma normalize_record_key_set: "fst ` set (normalize_record r) = set CANONICAL_FIELDS"
  using normalize_record_keys [of r] by (metis set_map)

lemma other_cols_empty:
  "filter (\<lambda>c. c \<notin> set CANONICAL_FIELDS)
     (remdups (concat (map (map fst) (map normalize_record recs)))
      @ filter (\<lambda>c. c \<notin> set (remdups (concat (map (map fst) (map normalize_record recs)))))
          CANONICAL_FIELDS) = []"
proof -
  have "c \<in> set CANONICAL_FIELDS"
    if "c \<in> set (concat (map (map fst) (map normalize_record recs)))" for c
  proof -
    from that obtain r where "c \<in> fst ` set (normalize_record r)" by auto
    then show ?thesis by (simp only: normalize_record_key_set)
  qed
  then show ?thesis by (auto simp: filter_empty_conv)
qed

lemma build_columns: "build L recs = Inr t \<Longrightarrow> columns t = CANONICAL_FIELDS"
  unfolding build_def Let_def other_cols_empty by (auto split: sum.splits)

lemma build_datetimes: "build L recs = Inr t \<Longrightarrow> datetimes t = {''time''}"
  by (auto simp: build_def Let_def split: sum.splits)

lemma to_dataframe_stored [simp]:
  "to_dataframe L (ds\<lparr>df := Some t\<rparr>) = (Inr t, ds\<lparr>df := Some t\<rparr>)"
  by (simp add: to_dataframe_def)



lemma to_dataframe_Inr:
  "to_dataframe L ds = (Inr t, ds1) \<Longrightarrow> df ds1 = Some t \<and> raw ds1 = raw ds
     \<and> to_dataframe L' ds1 = (Inr t, ds1)"
  by (auto simp: to_dataframe_def split: option.splits sum.splits)

lemma to_dataframe_Inl:
  "to_dataframe L ds = (Inl e, ds1) \<Longrightarrow> ds1 = ds \<and> df ds = None \<and> build L (raw ds) = Inl e"
  by (auto simp: to_dataframe_def split: option.splits sum.splits)

lemma build_empty:
  "build scenario_lib [] = Inr \<lparr>columns = CANONICAL_FIELDS, datetimes = {''time''}, rows = []\<rparr>"
proof -
  have "filter (\<lambda>c. c \<notin> set CANONICAL_FIELDS) CANONICAL_FIELDS = []"
    by (simp add: filter_empty_conv)
  then show ?thesis by (simp add: build_def Let_def scenario_lib_def)
qed

text \<open>
  C10, as amended. On a dataset made from a list of raw records on which the build does
  not raise, the first \<open>to_dataframe\<close> builds the table from the records and stores it;
  the second returns the very same table and leaves the dataset as it is, and it does not
  read the raw records: it returns the stored table whatever records (and whatever
  parsers) it is run with. When the build raises, \<open>to_dataframe\<close> raises the same error and
  the dataset is left as it was, with no table stored.
\<close>

theorem to_dataframe_memoized:
  "(case build L recs of
      Inr t \<Rightarrow>
        to_dataframe L (from_records recs) = (Inr t, \<lparr>raw = recs, df = Some t\<rparr>)
        \<and> (\<forall>L' recs'. to_dataframe L' \<lparr>raw = recs', df = Some t\<rparr>
               = (Inr t, \<lparr>raw = recs', df = Some t\<rparr>))
    | Inl e \<Rightarrow> to_dataframe L (from_records recs) = (Inl e, from_records recs))"
  by (simp add: to_dataframe_def from_records_def split: sum.splits)

theorem to_dataframe_memoized_witness:
  "build scenario_lib [] = Inr \<lparr>columns = CANONICAL_FIELDS, datetimes = {''time''}, rows = []\<rparr>
   \<and> to_dataframe scenario_lib (from_records [])
       = (Inr \<lparr>columns = CANONICAL_FIELDS, datetimes = {''time''}, rows = []\<rparr>,
          \<lparr>raw = [], df = Some \<lparr>columns = CANONICAL_FIELDS, datetimes = {''time''}, rows = []\<rparr>\<rparr>)
   \<and> to_dataframe scenario_lib
         \<lparr>raw = scenario_records,
          df = Some \<lparr>columns = CANONICAL_FIELDS, datetimes = {''time''}, rows = []\<rparr>\<rparr>
       = (Inr \<lparr>columns = CANONICAL_FIELDS, datetimes = {''time''}, rows = []\<rparr>,
          \<lparr>raw = scenario_records,
           df = Some \<lparr>columns = CANONICAL_FIELDS, datetimes = {''time''}, rows = []\<rparr>\<rparr>)"
proof -
  let ?t = "\<lparr>columns = CANONICAL_FIELDS, datetimes = {''time''}, rows = []\<rparr>"
  have b: "build scenario_lib [] = Inr ?t" by (rule build_empty)
  have m: "to_dataframe scenario_lib (from_records []) = (Inr ?t, \<lparr>raw = [], df = Some ?t\<rparr>)
        \<and> (\<forall>L' recs'. to_dataframe L' \<lparr>raw = recs', df = Some ?t\<rparr>
               = (Inr ?t, \<lparr>raw = recs', df = Some ?t\<rparr>))"
    using to_dataframe_memoized [of scenario_lib "[]", unfolded b sum.case] .
  then have "to_dataframe scenario_lib \<lparr>raw = scenario_records, df = Some ?t\<rparr>
               = (Inr ?t, \<lparr>raw = scenario_records, df = Some ?t\<rparr>)" by blast
  with b m show ?thesis by blast
qed

text \<open>
  C10, as stated, fails on a record whose time cannot be localised: the build raises,
  no table is stored, and the second \<open>to_dataframe\<close> derives from the raw records again
  and raises again.
\<close>

theorem to_dataframe_not_memoized_on_error:
  "to_dataframe nonexistent_lib (snd (to_dataframe nonexistent_lib (from_records nonexistent_records)))
     = (Inl (NonExistentTimeError ''2016-03-27 03:30:00''), from_records nonexistent_records)
   \<and> df (snd (to_dataframe nonexistent_lib (from_records nonexistent_records))) = None"
proof -
  have "field_of (normalize_record [''mag'' \<mapsto> JNum 4, ''time'' \<mapsto> JStr ''2016-03-27T03:30:00''])
      ''time'' = JStr ''2016-03-27T03:30:00''"
    by (simp add: field_of_def normalize_record_def aliases_def)
  then have "build nonexistent_lib nonexistent_records
      = Inl (NonExistentTimeError ''2016-03-27 03:30:00'')"
    by (simp add: build_def Let_def nonexistent_records_def nonexistent_lib_def)
  then show ?thesis
    by (simp add: to_dataframe_def from_records_def)
qed

section \<open>The tables of the examples\<close>

lemma field_of_normalize:
  "(c, names) \<in> set aliases \<Longrightarrow> field_of (normalize_record r) c = g r names"
  by (simp add: field_of_def map_of_normalize_record)

lemma scenario_fields:
  "field_of (normalize_record [''mag'' \<mapsto> JNum m, ''time'' \<mapsto> JStr s]) c =
     (if c = ''time'' then JStr s else if c = ''magnitude'' then JNum m else JNull)"
proof (cases "c \<in> set CANONICAL_FIELDS")
  case False
  have "fst ` set (normalize_record [''mag'' \<mapsto> JNum m, ''time'' \<mapsto> JStr s])
      = set CANONICAL_FIELDS"
    by (rule normalize_record_key_set)
  with False
  have "map_of (normalize_record [''mag'' \<mapsto> JNum m, ''time'' \<mapsto> JStr s]) c = None"
    by (simp only: map_of_eq_None_iff not_False_eq_True)
  with False show ?thesis by (auto simp: field_of_def CANONICAL_FIELDS_def)
next
  case True
  then consider "c = ''event_id''" | "c = ''time''" | "c = ''latitude''" | "c = ''longitude''"
    | "c = ''depth_km''" | "c = ''magnitude''" | "c = ''mag_type''" | "c = ''location''"
    | "c = ''province''" | "c = ''district''" | "c = ''country''" | "c = ''neighborhood''"
    | "c = ''rms''" | "c = ''is_event_update''" | "c = ''last_update_time''"
    unfolding CANONICAL_FIELDS_def by force
  then show ?thesis
    by cases (simp_all add: field_of_def normalize_record_def aliases_def)
qed

lemma scenario_row:
  "parse (JStr s) = Some t \<Longrightarrow>
   build_row scenario_lib CANONICAL_FIELDS parse
       (normalize_record [''mag'' \<mapsto> JNum m, ''time'' \<mapsto> JStr s])
     = [''time'' \<mapsto> Time t, ''magnitude'' \<mapsto> Num m]"
  unfolding build_row_def scenario_fields
  by (rule ext) (auto simp: numeric_columns_def CANONICAL_FIELDS_def scenario_lib_def cell_of_json_def)

lemma scenario_build: "build scenario_lib scenario_records = Inr scenario_table"
proof -
  let ?parse = "map_of
         [(JStr ''2025-01-01T10:00:00'', 1735725600::int),
          (JStr ''2025-01-01T20:00:00'', 1735761600),
          (JStr ''2025-01-03T05:00:00'', 1735880400)]"
  have p: "to_datetime scenario_lib col = Inr ?parse" for col
    by (simp add: scenario_lib_def)
  have t: "?parse (JStr ''2025-01-01T10:00:00'') = Some 1735725600"
    "?parse (JStr ''2025-01-01T20:00:00'') = Some 1735761600"
    "?parse (JStr ''2025-01-03T05:00:00'') = Some 1735880400"
    by simp_all
  have r: "build_row scenario_lib CANONICAL_FIELDS ?parse
       (normalize_record [''mag'' \<mapsto> JNum m, ''time'' \<mapsto> JStr s])
     = [''time'' \<mapsto> Time t, ''magnitude'' \<mapsto> Num m]" if "?parse (JStr s) = Some t" for s t m
    using that by (rule scenario_row)
  have "build scenario_lib scenario_records
      = Inr \<lparr>columns = CANONICAL_FIELDS, datetimes = {''time''},
             rows = map (build_row scenario_lib CANONICAL_FIELDS ?parse)
                      (map normalize_record scenario_records)\<rparr>"
    unfolding build_def Let_def other_cols_empty p by simp
  also have "map (build_row scenario_lib CANONICAL_FIELDS ?parse)
                      (map normalize_record scenario_records) = rows scenario_table"
    unfolding scenario_records_def
    by (simp only: list.map r [OF t(1)] r [OF t(2)] r [OF t(3)]) (simp add: scenario_table_def)
  finally show ?thesis by (simp add: scenario_table_def)
qed

lemma scenario_current:
  "to_dataframe scenario_lib (from_records scenario_records)
     = (Inr scenario_table, \<lparr>raw = scenario_records, df = Some scenario_table\<rparr>)"
  by (simp add: to_dataframe_def from_records_def scenario_build)


lemma example_canonical: "canonical example_table"
  by (simp add: canonical_def example_table_def CANONICAL_FIELDS_def is_datetime_def)

lemmas agg_defs = Let_def is_datetime_def assign_day_def
  set_column_def add_column_def window_def select_def reduce_def daily_max_mag_def loc_idxmax_def
  group_keys_def group_rows_def day_key_def time_of_def num_of_def idxmax_def column_values_def
  List.map_filter_def floor_day_def finish_row_def finish_columns_def finish_datetimes_def
  transform_count_def count_col_def ge_time_def le_time_def ge_num_def le_num_def

lemmas fill_defs = fill_days_def start_day_def end_day_def date_range_def reindex_row_def
  fill_defaults_def fillna_def

lemmas energy_defs = daily_energy_def ensure_energy_def energy_row_def energy_def agg_sum_def
  agg_max_def


section \<open>Filters commute\<close>


lemma columns_select [simp]: "columns (select p t) = columns t"
  by (simp add: select_def)

lemma datetimes_select [simp]: "datetimes (select p t) = datetimes t"
  by (simp add: select_def)

lemma rows_select [simp]: "rows (select p t) = filter p (rows t)"
  by (simp add: select_def)

lemma is_datetime_select [simp]: "is_datetime (select p t) = is_datetime t"
  by (simp add: is_datetime_def)

lemma filterable_select [simp]: "filterable (select p t) = filterable t"
  by (simp add: filterable_def)
















section \<open>Energy conversion\<close>

lemma convert_energy_select:
  assumes "to_dataframe L ds = (Inr t, ds1)" "''magnitude'' \<in> set (columns t)"
  shows "convert_energy L a b out_col ds
    = (Done, ds1\<lparr>df := Some (set_column out_col False
          (\<lambda>r. energy a b (num_of (r ''magnitude''))) t)\<rparr>)"
  using assms by (simp add: convert_energy_def)

text \<open>
  C4, as amended. On a table with a magnitude column, \<open>convert_energy\<close> with the default
  constants succeeds and keeps every row in place. In each row the output column holds
  \<open>10 powr (1.44 + 5.24 * M)\<close> when the magnitude \<open>M\<close> is not null and null otherwise;
  every column other than the output column is left as it was, so the magnitude is
  unaltered whenever the output column is not the magnitude column itself. The output
  column is added to the columns when it is new and overwritten when it is present.
\<close>

theorem convert_energy_rows:
  assumes "to_dataframe L ds = (Inr t, ds1)" and "''magnitude'' \<in> set (columns t)"
  shows "\<exists>t'. convert_energy L 1.44 5.24 out_col ds = (Done, ds1\<lparr>df := Some t'\<rparr>)
      \<and> set (columns t') = insert out_col (set (columns t))
      \<and> (out_col \<in> set (columns t) \<longrightarrow> columns t' = columns t)
      \<and> length (rows t') = length (rows t)
      \<and> (\<forall>i < length (rows t).
           (rows t' ! i) out_col =
              (case num_of ((rows t ! i) ''magnitude'') of
                 Some M \<Rightarrow> Some (Num (10 powr (1.44 + 5.24 * M))) | None \<Rightarrow> None)
           \<and> (\<forall>c. c \<noteq> out_col \<longrightarrow> (rows t' ! i) c = (rows t ! i) c))"
  unfolding convert_energy_select [OF assms]
  by (rule exI [of _ "set_column out_col False (\<lambda>r. energy 1.44 5.24 (num_of (r ''magnitude''))) t"])
     (auto simp: set_column_def add_column_def energy_def split: option.splits)

theorem convert_energy_rows_witness:
  "to_dataframe scenario_lib example_dataset = (Inr example_table, example_dataset)
   \<and> ''magnitude'' \<in> set (columns example_table)
   \<and> map (\<lambda>r. r ''energy_J'')
        (rows (current scenario_lib (snd (convert_energy scenario_lib 1.44 5.24 ''energy_J'' example_dataset))))
      = [Some (Num (10 powr (1.44 + 5.24 * 5))), Some (Num (10 powr (1.44 + 5.24 * 6))), None]
   \<and> map (\<lambda>r. r ''magnitude'')
        (rows (current scenario_lib (snd (convert_energy scenario_lib 1.44 5.24 ''energy_J'' example_dataset))))
      = [Some (Num 5), Some (Num 6), None]"
proof -
  have a: "to_dataframe scenario_lib example_dataset = (Inr example_table, example_dataset)"
    by (simp add: to_dataframe_def example_dataset_def)
  have b: "''magnitude'' \<in> set (columns example_table)"
    by (simp add: example_table_def CANONICAL_FIELDS_def)
  from convert_energy_rows [OF a b, of "''energy_J''"]
  obtain t' where c: "convert_energy scenario_lib 1.44 5.24 ''energy_J'' example_dataset
        = (Done, example_dataset\<lparr>df := Some t'\<rparr>)"
    and l: "length (rows t') = length (rows example_table)"
    and r: "\<forall>i < length (rows example_table).
           (rows t' ! i) ''energy_J'' =
              (case num_of ((rows example_table ! i) ''magnitude'') of
                 Some M \<Rightarrow> Some (Num (10 powr (1.44 + 5.24 * M))) | None \<Rightarrow> None)
           \<and> (\<forall>c. c \<noteq> ''energy_J'' \<longrightarrow> (rows t' ! i) c = (rows example_table ! i) c)"
    by blast
  have n: "length (rows example_table) = 3" by (simp add: example_table_def)
  have l3: "length (rows t') = 3" using l n by simp
  then obtain r0 r1 r2 where t': "rows t' = [r0, r1, r2]"
    by (auto simp: length_Suc_conv numeral_3_eq_3)
  have r0: "r0 ''energy_J'' = Some (Num (10 powr (1.44 + 5.24 * 5))) \<and> r0 ''magnitude'' = Some (Num 5)"
    using r [rule_format, of 0] n t' by (simp add: example_table_def num_of_def)
  have r1: "r1 ''energy_J'' = Some (Num (10 powr (1.44 + 5.24 * 6))) \<and> r1 ''magnitude'' = Some (Num 6)"
    using r [rule_format, of 1] n t' by (simp add: example_table_def num_of_def)
  have r2: "r2 ''energy_J'' = None \<and> r2 ''magnitude'' = None"
    using r [rule_format, of 2] n t' by (simp add: example_table_def num_of_def)
  show ?thesis using a b c t' r0 r1 r2 by (simp add: current_def)
qed

text \<open>
  C4, as stated, fails when the output column is named \<open>magnitude\<close>: the energy is
  written over the magnitude of the first row of the example table.
\<close>

theorem convert_energy_overwrites_magnitude:
  "(rows (current scenario_lib
       (snd (convert_energy scenario_lib 1.44 5.24 ''magnitude'' example_dataset))) ! 0) ''magnitude''
     \<noteq> (rows (current scenario_lib example_dataset) ! 0) ''magnitude''"
proof -
  have "(10::real) powr 1 \<le> 10 powr (1.44 + 5.24 * 5)"
    by (rule powr_mono) simp_all
  then have "(10::real) powr (1.44 + 5.24 * 5) \<noteq> 5" by simp
  then show ?thesis
    by (simp add: current_def convert_energy_def to_dataframe_def example_dataset_def
        example_table_def CANONICAL_FIELDS_def set_column_def energy_def num_of_def)
qed

section \<open>Configuration errors\<close>







section \<open>The scenario of the specification, run on the code\<close>

text \<open>
  C1 at the scenario of the specification: the three records carry no event id, and
  \<open>daily_max_mag\<close> with gap filling over 2025-01-01 .. 2025-01-03 selects the rows of
  magnitude 6 and 3 on days 1 and 3, but attaches \<open>event_count = 0\<close> to both, where the
  days hold 2 rows and 1 row: the count is taken from \<open>transform("count")\<close> of the
  \<open>event_id\<close> column, which counts the non-null ids of the day.
\<close>

theorem daily_max_mag_counts_event_ids:
  "map (\<lambda>r. (r ''time'', r ''magnitude'', r ''event_count''))
     (rows (current scenario_lib (snd (aggregate_daily scenario_lib ''daily_max_mag'' None ''energy_J''
        True (Some 1735689600) (Some 1735862400) (from_records scenario_records)))))
   = [(Some (Time 1735689600), Some (Num 6), Some (Num 0)),
      (Some (Time 1735776000), None, Some (Num 0)),
      (Some (Time 1735862400), Some (Num 3), Some (Num 0))]"
  unfolding aggregate_daily_def scenario_current
  by (simp add: current_def to_dataframe_def agg_defs fill_defs scenario_table_def
      CANONICAL_FIELDS_def upt_rec)

text \<open>
  C5 at the same records: \<open>daily_energy_sum\<close> computes the energies with the default
  constants and gives one row for each of the two days that hold events, with the sum of
  the day's energies and the maximum magnitude of the day, but with \<open>event_count = 0\<close>:
  the count is \<open>("event_id", "count")\<close>, the number of non-null ids, not of rows.
\<close>

theorem daily_energy_sum_counts_event_ids:
  "map (\<lambda>r. (r ''time'', r ''energy_J'', r ''event_count'', r ''magnitude''))
     (rows (current scenario_lib (snd (aggregate_daily scenario_lib ''daily_energy_sum'' None
        ''energy_J'' False None None (from_records scenario_records)))))
   = [(Some (Time 1735689600),
       Some (Num (10 powr (1.44 + 5.24 * 5) + 10 powr (1.44 + 5.24 * 6))),
       Some (Num 0), Some (Num 6)),
      (Some (Time 1735862400), Some (Num (10 powr (1.44 + 5.24 * 3))), Some (Num 0),
       Some (Num 3))]"
  unfolding aggregate_daily_def scenario_current
  by (simp add: current_def to_dataframe_def agg_defs energy_defs scenario_table_def
      CANONICAL_FIELDS_def)

text \<open>
  C7 at the example table: its third row is alone on its day and has a null magnitude.
  \<open>idxmax\<close> has no label for that day, and \<open>daily_max_mag\<close> raises where the row is
  looked up.
\<close>

theorem daily_max_mag_null_day_raises:
  "aggregate_daily scenario_lib ''daily_max_mag'' None ''energy_J'' False None None example_dataset
     = (Raised (KeyError ''[nan] not in index''), example_dataset)"
  by (simp add: aggregate_daily_def to_dataframe_def agg_defs example_dataset_def
      example_table_def CANONICAL_FIELDS_def)

end
